theory Spec2Isabelle
  imports Main "HOL-Library.Word"
begin

section \<open>Python values\<close>

text \<open>
  A Python \<open>str\<close> is a sequence of Unicode code points, so it is modelled as a list of
  natural numbers (one per code point), not as a list of bytes. \<open>u\<close> turns an ASCII
  literal into such a string.
\<close>

type_synonym ustr = "nat list"

definition u :: "string \<Rightarrow> ustr" where
  "u s = map of_char s"

text \<open>
  The characters \<open>str.strip()\<close> removes when called without argument: the code points
  for which \<open>str.isspace\<close> holds.
\<close>

definition is_space :: "nat \<Rightarrow> bool" where
  "is_space c =
     ((9 \<le> c \<and> c \<le> 13) \<or> (28 \<le> c \<and> c \<le> 32) \<or> c = 133 \<or> c = 160 \<or> c = 5760
      \<or> (8192 \<le> c \<and> c \<le> 8202) \<or> c = 8232 \<or> c = 8233 \<or> c = 8239 \<or> c = 8287
      \<or> c = 12288)"

definition strip :: "ustr \<Rightarrow> ustr" where
  "strip s = rev (dropWhile is_space (rev (dropWhile is_space s)))"

text \<open>\<open>sep.join(parts)\<close>.\<close>

fun join :: "ustr \<Rightarrow> ustr list \<Rightarrow> ustr" where
  "join sep [] = []"
| "join sep [x] = x"
| "join sep (x # y # ys) = x @ sep @ join sep (y # ys)"

text \<open>
  The values \<open>json.loads\<close> returns. A float is kept as the 64 bits of its IEEE double; a
  \<open>dict\<close> is an association list in insertion order (its keys are distinct in Python,
  and a lookup takes the entry of the key).
\<close>

datatype json =
    JNull
  | JBool bool
  | JInt int
  | JFloat "64 word"
  | JStr ustr
  | JList "json list"
  | JObj "(ustr \<times> json) list"

text \<open>
  The exceptions of the model are instances of \<open>Exception\<close>; each carries its message,
  which is what \<open>str(e)\<close> returns. \<open>ExternalError\<close> stands for whatever a library call
  (the provider client, \<open>json.loads\<close>, \<open>docx.Document\<close>) raises.
\<close>

datatype py_exn =
    TypeError ustr
  | AttributeError ustr
  | IndexError ustr
  | ExternalError ustr

fun exn_str :: "py_exn \<Rightarrow> ustr" where
  "exn_str (TypeError m) = m"
| "exn_str (AttributeError m) = m"
| "exn_str (IndexError m) = m"
| "exn_str (ExternalError m) = m"

fun type_name :: "json \<Rightarrow> string" where
  "type_name JNull = ''NoneType''"
| "type_name (JBool b) = ''bool''"
| "type_name (JInt i) = ''int''"
| "type_name (JFloat w) = ''float''"
| "type_name (JStr s) = ''str''"
| "type_name (JList xs) = ''list''"
| "type_name (JObj d) = ''dict''"

text \<open>Decimal digits of a natural number, most significant first.\<close>

fun digits :: "nat \<Rightarrow> ustr" where
  "digits n = (if n < 10 then [48 + n] else digits (n div 10) @ [48 + n mod 10])"

declare digits.simps [simp del]

text \<open>
  \<open>str(v)\<close>, which is also what an f-string field \<open>{v}\<close> inserts. On a string it is the
  string itself. On a float, a list or a dict it is \<open>repr(v)\<close>, which depends on the
  interpreter's float formatting and Unicode tables: it is the parameter \<open>rp\<close>.
\<close>

fun py_str :: "(json \<Rightarrow> ustr) \<Rightarrow> json \<Rightarrow> ustr" where
  "py_str rp (JStr s) = s"
| "py_str rp JNull = u ''None''"
| "py_str rp (JBool b) = (if b then u ''True'' else u ''False'')"
| "py_str rp (JInt i) = (if i < 0 then 45 # digits (nat (- i)) else digits (nat i))"
| "py_str rp (JFloat w) = rp (JFloat w)"
| "py_str rp (JList xs) = rp (JList xs)"
| "py_str rp (JObj d) = rp (JObj d)"

text \<open>Truthiness, as \<open>if v\<close> and \<open>v or w\<close> test it.\<close>

fun py_truthy :: "json \<Rightarrow> bool" where
  "py_truthy JNull = False"
| "py_truthy (JBool b) = b"
| "py_truthy (JInt i) = (i \<noteq> 0)"
| "py_truthy (JFloat w) = (w \<noteq> 0 \<and> w \<noteq> 0x8000000000000000)"
| "py_truthy (JStr s) = (s \<noteq> [])"
| "py_truthy (JList xs) = (xs \<noteq> [])"
| "py_truthy (JObj d) = (d \<noteq> [])"

text \<open>
  \<open>for p in v\<close>: a list yields its elements, a string its characters, a dict its keys;
  anything else raises \<open>TypeError\<close>.
\<close>

fun py_iter :: "json \<Rightarrow> py_exn + json list" where
  "py_iter (JList xs) = Inr xs"
| "py_iter (JStr s) = Inr (map (\<lambda>c. JStr [c]) s)"
| "py_iter (JObj d) = Inr (map (\<lambda>kv. JStr (fst kv)) d)"
| "py_iter v = Inl (TypeError (39 # u (type_name v) @ 39 # u '' object is not iterable''))"

definition dict_get :: "(ustr \<times> json) list \<Rightarrow> ustr \<Rightarrow> json \<Rightarrow> json" where
  "dict_get d k dflt = (case map_of d k of None \<Rightarrow> dflt | Some v \<Rightarrow> v)"

text \<open>The keys of a dict, in order; \<open>None\<close> on a value that is not a dict.\<close>

fun py_keys :: "json \<Rightarrow> ustr list option" where
  "py_keys (JObj d) = Some (map fst d)"
| "py_keys v = None"

text \<open>\<open>v.get(k, dflt)\<close>: only a dict has the method.\<close>

fun py_get :: "json \<Rightarrow> ustr \<Rightarrow> json \<Rightarrow> py_exn + json" where
  "py_get (JObj d) k dflt = Inr (dict_get d k dflt)"
| "py_get v k dflt =
     Inl (AttributeError (39 # u (type_name v) @ 39 # u '' object has no attribute ''
                          @ 39 # u ''get'' @ [39]))"

section \<open>minNode.py: sanitizing and the fallback record\<close>

text \<open>\<open>[str(p).strip() for p in xs if str(p).strip()]\<close>\<close>

definition clean_items :: "(json \<Rightarrow> ustr) \<Rightarrow> json list \<Rightarrow> json list" where
  "clean_items rp xs = [JStr (strip (py_str rp p)). p \<leftarrow> xs, strip (py_str rp p) \<noteq> []]"

text \<open>One list entry of the dict display of \<open>_clean_minutes\<close>, for the key \<open>k\<close>.\<close>

definition clean_field :: "(json \<Rightarrow> ustr) \<Rightarrow> json \<Rightarrow> ustr \<Rightarrow> py_exn + json" where
  "clean_field rp minutes k =
     (case py_get minutes k (JList []) of
        Inl e \<Rightarrow> Inl e
      | Inr v \<Rightarrow> (case py_iter v of
                   Inl e \<Rightarrow> Inl e
                 | Inr xs \<Rightarrow> Inr (JList (clean_items rp xs))))"

text \<open>\<open>str(minutes.get("summary", "")).strip() or "No summary available."\<close>\<close>

definition clean_summary :: "(json \<Rightarrow> ustr) \<Rightarrow> json \<Rightarrow> py_exn + json" where
  "clean_summary rp minutes =
     (case py_get minutes (u ''summary'') (JStr []) of
        Inl e \<Rightarrow> Inl e
      | Inr v \<Rightarrow> (let s = strip (py_str rp v)
                 in Inr (JStr (if s \<noteq> [] then s else u ''No summary available.''))))"

text \<open>\<open>OpenAIClient._clean_minutes\<close>: the entries are evaluated in the order written.\<close>

definition clean_minutes :: "(json \<Rightarrow> ustr) \<Rightarrow> json \<Rightarrow> py_exn + json" where
  "clean_minutes rp minutes =
     (case clean_summary rp minutes of Inl e \<Rightarrow> Inl e | Inr s \<Rightarrow>
     (case clean_field rp minutes (u ''participants'') of Inl e \<Rightarrow> Inl e | Inr ps \<Rightarrow>
     (case clean_field rp minutes (u ''discussion_points'') of Inl e \<Rightarrow> Inl e | Inr ts \<Rightarrow>
     (case clean_field rp minutes (u ''outcomes_or_decisions'') of Inl e \<Rightarrow> Inl e | Inr ds \<Rightarrow>
     (case clean_field rp minutes (u ''next_steps'') of Inl e \<Rightarrow> Inl e | Inr ns \<Rightarrow>
        Inr (JObj [(u ''summary'', s),
                   (u ''participants'', ps),
                   (u ''discussion_points'', ts),
                   (u ''outcomes_or_decisions'', ds),
                   (u ''next_steps'', ns)]))))))"

text \<open>\<open>OpenAIClient._create_fallback_minutes\<close>\<close>

definition create_fallback_minutes :: json where
  "create_fallback_minutes =
     JObj [(u ''summary'',
              JStr (u ''Could not automatically generate minutes. Manual review required.'')),
           (u ''participants'', JList []),
           (u ''key_topics'', JList [JStr (u ''Manual review required'')]),
           (u ''decisions'', JList []),
           (u ''action_items'', JList []),
           (u ''next_steps'', JList [JStr (u ''Review transcript manually'')])]"

section \<open>minNode.py: the client\<close>

text \<open>
  The calls that leave the process. \<open>new_client\<close> is the constructor \<open>OpenAI(api_key=...,
  base_url=...)\<close> (the base URL is \<open>None\<close> when the keyword is not passed),
  \<open>models_list\<close> is \<open>client.models.list()\<close>, \<open>chat_create\<close> is
  \<open>client.chat.completions.create\<close> with the model and the content of the user message
  (the system prompt, the temperature, the token limit and the response format are
  constants of the source), and \<open>json_loads\<close> is \<open>json.loads\<close> on a string. A
  response is the list of its choices, each the \<open>message.content\<close> of the choice, which
  may be \<open>None\<close>.
\<close>

type_synonym response = "ustr option list"

record 'c provider =
  new_client :: "ustr \<Rightarrow> ustr option \<Rightarrow> py_exn + 'c"
  models_list :: "'c \<Rightarrow> py_exn + unit"
  chat_create :: "'c \<Rightarrow> ustr \<Rightarrow> ustr \<Rightarrow> py_exn + response"
  json_loads :: "ustr \<Rightarrow> py_exn + json"

text \<open>The network calls an operation attempts, in order.\<close>

datatype net_call = ModelsList | ChatCompletion ustr ustr

text \<open>The attributes of an \<open>OpenAIClient\<close> object.\<close>

record 'c openai_client =
  client :: "'c option"
  model :: ustr
  last_error :: "ustr option"

text \<open>\<open>a or b\<close> on optional strings: \<open>None\<close> and the empty string are falsy.\<close>

fun opt_or :: "ustr option \<Rightarrow> ustr option \<Rightarrow> ustr option" where
  "opt_or None b = b"
| "opt_or (Some s) b = (if s \<noteq> [] then Some s else b)"

text \<open>\<open>a or d\<close> where \<open>d\<close> is a string.\<close>

fun str_or :: "ustr option \<Rightarrow> ustr \<Rightarrow> ustr" where
  "str_or None d = d"
| "str_or (Some s) d = (if s \<noteq> [] then s else d)"

text \<open>\<open>OpenAIClient._init_client\<close>\<close>

definition init_client ::
  "'c provider \<Rightarrow> 'c openai_client \<Rightarrow> ustr option \<Rightarrow> ustr option \<Rightarrow> 'c openai_client" where
  "init_client prov self api_key base_url =
     (case opt_or api_key None of
        None \<Rightarrow> self\<lparr>client := None, last_error := Some (u ''OPENAI_API_KEY is missing'')\<rparr>
      | Some key \<Rightarrow>
          (case new_client prov key (opt_or base_url None) of
             Inr c \<Rightarrow> self\<lparr>client := Some c, last_error := None\<rparr>
           | Inl e \<Rightarrow> self\<lparr>client := None,
                          last_error := Some (u ''Failed to initialize OpenAI client: ''
                                              @ exn_str e)\<rparr>))"

text \<open>
  \<open>OpenAIClient.__init__\<close>; \<open>env\<close> is the process environment that \<open>os.getenv\<close> reads.
\<close>

definition new_openai_client ::
  "'c provider \<Rightarrow> (ustr \<Rightarrow> ustr option) \<Rightarrow> ustr option \<Rightarrow> ustr option \<Rightarrow> 'c openai_client" where
  "new_openai_client prov env api_key base_url =
     (let self = \<lparr>client = None,
                  model = (case env (u ''OPENAI_MODEL'') of
                             None \<Rightarrow> u ''gpt-4o-mini'' | Some m \<Rightarrow> m),
                  last_error = None\<rparr>;
          key = opt_or api_key (env (u ''OPENAI_API_KEY''))
      in init_client prov self key (opt_or base_url (env (u ''OPENAI_BASE_URL''))))"

text \<open>\<open>OpenAIClient.set_api_key\<close>\<close>

definition set_api_key ::
  "'c provider \<Rightarrow> 'c openai_client \<Rightarrow> ustr \<Rightarrow> bool \<times> 'c openai_client" where
  "set_api_key prov self api_key =
     (let self' = init_client prov self (Some api_key) None
      in (client self' \<noteq> None, self'))"

text \<open>
  An operation returns what the method returns, the object after the call, and the
  network calls it attempted; \<open>Inl\<close> is an exception that reaches the caller.
\<close>

type_synonym ('a, 'c) outcome = "py_exn + ('a \<times> 'c openai_client \<times> net_call list)"

text \<open>\<open>try: body / except Exception as e: handler\<close>\<close>

definition try_except :: "(py_exn + 'a) \<Rightarrow> (py_exn \<Rightarrow> py_exn + 'a) \<Rightarrow> py_exn + 'a" where
  "try_except body handler = (case body of Inl e \<Rightarrow> handler e | Inr x \<Rightarrow> Inr x)"

text \<open>\<open>OpenAIClient.test_connection\<close>\<close>

definition test_connection :: "'c provider \<Rightarrow> 'c openai_client \<Rightarrow> (bool \<times> ustr, 'c) outcome" where
  "test_connection prov self =
     (case client self of
        None \<Rightarrow>
          Inr ((False, str_or (last_error self) (u ''OpenAI client is not initialized'')),
               self, [])
      | Some c \<Rightarrow>
          try_except
            (case models_list prov c of
               Inl e \<Rightarrow> Inl e
             | Inr _ \<Rightarrow> Inr ((True, u ''Connection successful''), self, [ModelsList]))
            (\<lambda>e. Inr ((False, exn_str e), self\<lparr>last_error := Some (exn_str e)\<rparr>,
                       [ModelsList])))"

text \<open>
  \<open>json.loads(response.choices[0].message.content)\<close>: an empty list of choices raises
  \<open>IndexError\<close>, a content that is \<open>None\<close> raises \<open>TypeError\<close>.
\<close>

definition loads_first_choice :: "'c provider \<Rightarrow> response \<Rightarrow> py_exn + json" where
  "loads_first_choice prov resp =
     (case resp of
        [] \<Rightarrow> Inl (IndexError (u ''list index out of range''))
      | None # _ \<Rightarrow>
          Inl (TypeError (u ''the JSON object must be str, bytes or bytearray, not NoneType''))
      | Some content # _ \<Rightarrow> json_loads prov content)"

text \<open>The content of the user message: an f-string around the transcript.\<close>

definition user_message :: "ustr \<Rightarrow> ustr" where
  "user_message transcript = u ''Analyze this meeting transcript:'' @ [10, 10] @ transcript"

text \<open>
  The \<open>try\<close> block of \<open>generate_meeting_minutes\<close>: the completion call, the parse of
  its first choice, and \<open>_clean_minutes\<close>.
\<close>

definition generate_body ::
  "(json \<Rightarrow> ustr) \<Rightarrow> 'c provider \<Rightarrow> 'c \<Rightarrow> ustr \<Rightarrow> ustr \<Rightarrow> py_exn + json" where
  "generate_body rp prov c mdl transcript =
     (case chat_create prov c mdl (user_message transcript) of
        Inl e \<Rightarrow> Inl e
      | Inr resp \<Rightarrow>
          (case loads_first_choice prov resp of
             Inl e \<Rightarrow> Inl e
           | Inr minutes \<Rightarrow> clean_minutes rp minutes))"

text \<open>\<open>OpenAIClient.generate_meeting_minutes\<close>\<close>

definition generate_meeting_minutes ::
  "(json \<Rightarrow> ustr) \<Rightarrow> 'c provider \<Rightarrow> 'c openai_client \<Rightarrow> ustr \<Rightarrow> (json, 'c) outcome" where
  "generate_meeting_minutes rp prov self transcript =
     (case client self of
        None \<Rightarrow> Inr (create_fallback_minutes, self, [])
      | Some c \<Rightarrow>
          (let calls = [ChatCompletion (model self) (user_message transcript)]
           in try_except
                (case generate_body rp prov c (model self) transcript of
                   Inl e \<Rightarrow> Inl e
                 | Inr cleaned \<Rightarrow> Inr (cleaned, self, calls))
                (\<lambda>e. Inr (create_fallback_minutes, self\<lparr>last_error := Some (exn_str e)\<rparr>,
                           calls))))"

section \<open>minNode.py: text of a Word document\<close>

text \<open>
  What \<open>docx.Document(file)\<close> gives the function: the texts of the paragraphs, and the
  tables, each a list of rows, each row the texts of its cells.
\<close>

record docx_document =
  paragraphs :: "ustr list"
  tables :: "ustr list list list"

text \<open>
  \<open>for x in xs: if x.strip(): text_parts.append(x.strip())\<close>, over paragraphs and over
  the cells of a row.
\<close>

fun append_texts :: "ustr list \<Rightarrow> ustr list \<Rightarrow> ustr list" where
  "append_texts text_parts [] = text_parts"
| "append_texts text_parts (x # xs) =
     append_texts (if strip x \<noteq> [] then text_parts @ [strip x] else text_parts) xs"

fun append_rows :: "ustr list \<Rightarrow> ustr list list \<Rightarrow> ustr list" where
  "append_rows text_parts [] = text_parts"
| "append_rows text_parts (row # rows) = append_rows (append_texts text_parts row) rows"

fun append_tables :: "ustr list \<Rightarrow> ustr list list list \<Rightarrow> ustr list" where
  "append_tables text_parts [] = text_parts"
| "append_tables text_parts (table # ts) = append_tables (append_rows text_parts table) ts"

text \<open>
  \<open>extract_text_from_docx\<close>; \<open>open_docx\<close> is the reading of the file by the library
  (\<open>docx.Document\<close> and its accessors), which gives the document or raises.
\<close>

definition extract_text_from_docx :: "('f \<Rightarrow> py_exn + docx_document) \<Rightarrow> 'f \<Rightarrow> py_exn + ustr" where
  "extract_text_from_docx open_docx file =
     try_except
       (case open_docx file of
          Inl e \<Rightarrow> Inl e
        | Inr doc \<Rightarrow>
            Inr (join [10] (append_tables (append_texts [] (paragraphs doc)) (tables doc))))
       (\<lambda>e. Inr [])"

section \<open>minApp.py: Markdown\<close>

text \<open>\<open>"\n".join(f"- {p}" for p in minutes.get(k, []))\<close>\<close>

definition bullet_lines :: "(json \<Rightarrow> ustr) \<Rightarrow> json \<Rightarrow> ustr \<Rightarrow> py_exn + json" where
  "bullet_lines rp minutes k =
     (case py_get minutes k (JList []) of
        Inl e \<Rightarrow> Inl e
      | Inr v \<Rightarrow> (case py_iter v of
                   Inl e \<Rightarrow> Inl e
                 | Inr xs \<Rightarrow> Inr (JStr (join [10] (map (\<lambda>p. u ''- '' @ py_str rp p) xs)))))"

text \<open>The headers; each has an emoji (one or two code points) after \<open>##\<close>.\<close>

definition hdr_summary :: ustr where
  "hdr_summary = u ''## '' @ [128221] @ u '' Summary''"

definition hdr_participants :: ustr where
  "hdr_participants = u ''## '' @ [128101] @ u '' Participants''"

definition hdr_discussion_points :: ustr where
  "hdr_discussion_points = u ''## '' @ [128483, 65039] @ u '' Discussion Points''"

definition hdr_outcomes_or_decisions :: ustr where
  "hdr_outcomes_or_decisions = u ''## '' @ [9989] @ u '' Outcomes or Decisions''"

definition hdr_next_steps :: ustr where
  "hdr_next_steps = u ''## '' @ [128640] @ u '' Next Steps''"

text \<open>
  \<open>"\n\n".join(f"{header}\n{content}" for header, content in sections if content)\<close>
\<close>

definition render_sections :: "(json \<Rightarrow> ustr) \<Rightarrow> (ustr \<times> json) list \<Rightarrow> ustr" where
  "render_sections rp sections =
     join [10, 10] [header @ [10] @ py_str rp content.
                    (header, content) \<leftarrow> sections, py_truthy content]"

text \<open>\<open>format_minutes_as_markdown\<close>: the list \<open>sections\<close> is built first, entry by entry.\<close>

definition format_minutes_as_markdown :: "(json \<Rightarrow> ustr) \<Rightarrow> json \<Rightarrow> py_exn + ustr" where
  "format_minutes_as_markdown rp minutes =
     (case py_get minutes (u ''summary'') (JStr []) of Inl e \<Rightarrow> Inl e | Inr s \<Rightarrow>
     (case bullet_lines rp minutes (u ''participants'') of Inl e \<Rightarrow> Inl e | Inr ps \<Rightarrow>
     (case bullet_lines rp minutes (u ''discussion_points'') of Inl e \<Rightarrow> Inl e | Inr ts \<Rightarrow>
     (case bullet_lines rp minutes (u ''outcomes_or_decisions'') of Inl e \<Rightarrow> Inl e | Inr ds \<Rightarrow>
     (case bullet_lines rp minutes (u ''next_steps'') of Inl e \<Rightarrow> Inl e | Inr ns \<Rightarrow>
        Inr (render_sections rp
               [(hdr_summary, s),
                (hdr_participants, ps),
                (hdr_discussion_points, ts),
                (hdr_outcomes_or_decisions, ds),
                (hdr_next_steps, ns)]))))))"

section \<open>The specification's data model and wording\<close>

text \<open>
  The MinutesRecord of the specification: a summary and four ordered sequences of
  strings. \<open>record_dict\<close> is the dict that holds it, with the keys in the order the
  specification lists them.
\<close>

record minutes_record =
  summary :: ustr
  participants :: "ustr list"
  discussion_points :: "ustr list"
  outcomes_or_decisions :: "ustr list"
  next_steps :: "ustr list"

definition canonical_keys :: "ustr list" where
  "canonical_keys = [u ''summary'', u ''participants'', u ''discussion_points'',
                     u ''outcomes_or_decisions'', u ''next_steps'']"

definition record_dict :: "minutes_record \<Rightarrow> (ustr \<times> json) list" where
  "record_dict r =
     [(u ''summary'', JStr (summary r)),
      (u ''participants'', JList (map JStr (participants r))),
      (u ''discussion_points'', JList (map JStr (discussion_points r))),
      (u ''outcomes_or_decisions'', JList (map JStr (outcomes_or_decisions r))),
      (u ''next_steps'', JList (map JStr (next_steps r)))]"

text \<open>
  Sanitizing as the specification words it: coerce every element to a string, trim it,
  drop what is empty after trimming; the summary is coerced, trimmed, and replaced by
  the placeholder when empty.
\<close>

definition spec_sanitize_list :: "(json \<Rightarrow> ustr) \<Rightarrow> json list \<Rightarrow> ustr list" where
  "spec_sanitize_list rp xs = filter (\<lambda>s. s \<noteq> []) (map strip (map (py_str rp) xs))"

definition spec_sanitize_summary :: "(json \<Rightarrow> ustr) \<Rightarrow> json \<Rightarrow> ustr" where
  "spec_sanitize_summary rp v =
     (if strip (py_str rp v) = [] then u ''No summary available.'' else strip (py_str rp v))"

text \<open>
  The four list fields, and the values a \<open>for\<close> loop cannot iterate over: null, a
  boolean, a number. \<open>has_non_iterable_field\<close> holds of a dict in which some list
  field is present with such a value.
\<close>

definition list_field_keys :: "ustr list" where
  "list_field_keys = [u ''participants'', u ''discussion_points'',
                      u ''outcomes_or_decisions'', u ''next_steps'']"

fun non_iterable :: "json \<Rightarrow> bool" where
  "non_iterable JNull = True"
| "non_iterable (JBool b) = True"
| "non_iterable (JInt i) = True"
| "non_iterable (JFloat w) = True"
| "non_iterable (JStr s) = False"
| "non_iterable (JList xs) = False"
| "non_iterable (JObj d) = False"

definition has_non_iterable_field :: "(ustr \<times> json) list \<Rightarrow> bool" where
  "has_non_iterable_field d =
     list_ex (\<lambda>k. non_iterable (dict_get d k (JList []))) list_field_keys"

text \<open>
  The Markdown document as the specification words it: five blocks in a fixed order,
  a list rendered one \<open>- item\<close> line per element, a block left out when its content is
  empty, the remaining blocks joined by a blank line.
\<close>

definition spec_bullets :: "ustr list \<Rightarrow> ustr" where
  "spec_bullets items = join [10] (map (\<lambda>x. u ''- '' @ x) items)"

definition spec_sections :: "minutes_record \<Rightarrow> (ustr \<times> ustr) list" where
  "spec_sections r =
     [(hdr_summary, summary r),
      (hdr_participants, spec_bullets (participants r)),
      (hdr_discussion_points, spec_bullets (discussion_points r)),
      (hdr_outcomes_or_decisions, spec_bullets (outcomes_or_decisions r)),
      (hdr_next_steps, spec_bullets (next_steps r))]"

definition spec_markdown :: "minutes_record \<Rightarrow> ustr" where
  "spec_markdown r =
     join [10, 10] (map (\<lambda>hc. fst hc @ [10] @ snd hc)
                        (filter (\<lambda>hc. snd hc \<noteq> []) (spec_sections r)))"

text \<open>
  The fragments of a Word document in the order of the specification: all paragraphs,
  then the cells of every table, table by table and row by row.
\<close>

definition docx_fragments :: "docx_document \<Rightarrow> ustr list" where
  "docx_fragments doc = paragraphs doc @ concat (concat (tables doc))"

text \<open>
  The text of a Word document read word for word from the specification: the non-empty
  fragments, joined by single newlines.
\<close>

definition spec_docx_text :: "docx_document \<Rightarrow> ustr" where
  "spec_docx_text doc = join [10] (filter (\<lambda>s. s \<noteq> []) (docx_fragments doc))"

text \<open>
  A \<open>repr\<close> for inputs without floats and containers in the places where \<open>str\<close> is
  applied; \<open>py_str\<close> never calls it there.
\<close>

definition repr_unused :: "json \<Rightarrow> ustr" where
  "repr_unused v = []"

text \<open>
  A stubbed provider, as the end-to-end scenario of the specification uses one: the
  constructor succeeds, and the probe, the completion call and \<open>json.loads\<close> have the
  outcomes given.
\<close>

definition stub_provider ::
  "(py_exn + unit) \<Rightarrow> (py_exn + response) \<Rightarrow> (py_exn + json) \<Rightarrow> unit provider" where
  "stub_provider probe completion parsed =
     \<lparr>new_client = (\<lambda>key base. Inr ()),
      models_list = (\<lambda>c. probe),
      chat_create = (\<lambda>c mdl msg. completion),
      json_loads = (\<lambda>body. parsed)\<rparr>"

section \<open>Facts about strings and sanitizing\<close>

lemma strip_no_leading_space: "dropWhile is_space (strip s) = strip s"
proof (cases "strip s")
  case Nil
  then show ?thesis by simp
next
  case (Cons a as)
  define t where "t = dropWhile is_space s"
  have "rev t = takeWhile is_space (rev t) @ dropWhile is_space (rev t)" by simp
  then have "rev (rev t) = rev (takeWhile is_space (rev t) @ rev (strip s))"
    unfolding strip_def t_def by simp
  then obtain w where t: "t = strip s @ w" by simp
  then have "hd t = a" and "t \<noteq> []" using Cons by simp_all
  moreover from \<open>t \<noteq> []\<close> have "\<not> is_space (hd t)"
    unfolding t_def using hd_dropWhile by blast
  ultimately show ?thesis using Cons by simp
qed

lemma strip_idem: "strip (strip s) = strip s"
proof -
  have "strip (strip s) = rev (dropWhile is_space (rev (strip s)))"
    by (simp add: strip_def[of "strip s"] strip_no_leading_space)
  also have "\<dots> = rev (dropWhile is_space (dropWhile is_space (rev (dropWhile is_space s))))"
    by (simp add: strip_def)
  also have "\<dots> = strip s" by (simp add: strip_def)
  finally show ?thesis .
qed

lemma clean_items_spec: "clean_items rp xs = map JStr (spec_sanitize_list rp xs)"
  unfolding clean_items_def spec_sanitize_list_def by (induction xs) auto

lemma clean_items_idem: "clean_items rp (clean_items rp xs) = clean_items rp xs"
  unfolding clean_items_def by (induction xs) (auto simp: strip_idem)

lemma strip_placeholder: "strip (u ''No summary available.'') = u ''No summary available.''"
  by (simp add: strip_def u_def is_space_def)

lemma placeholder_nonempty: "u ''No summary available.'' \<noteq> []"
  by (simp add: u_def)

lemma clean_field_iterable:
  "py_iter (dict_get d k (JList [])) = Inr xs \<Longrightarrow>
   clean_field rp (JObj d) k = Inr (JList (map JStr (spec_sanitize_list rp xs)))"
  by (simp add: clean_field_def clean_items_spec)

lemma clean_summary_dict:
  "clean_summary rp (JObj d) =
     Inr (JStr (spec_sanitize_summary rp (dict_get d (u ''summary'') (JStr []))))"
  by (simp add: clean_summary_def spec_sanitize_summary_def Let_def)

lemma clean_minutes_iterable:
  assumes "py_iter (dict_get d (u ''participants'') (JList [])) = Inr ps"
    and "py_iter (dict_get d (u ''discussion_points'') (JList [])) = Inr ts"
    and "py_iter (dict_get d (u ''outcomes_or_decisions'') (JList [])) = Inr ds"
    and "py_iter (dict_get d (u ''next_steps'') (JList [])) = Inr ns"
  shows "clean_minutes rp (JObj d) =
           Inr (JObj (record_dict
             \<lparr>summary = spec_sanitize_summary rp (dict_get d (u ''summary'') (JStr [])),
              participants = spec_sanitize_list rp ps,
              discussion_points = spec_sanitize_list rp ts,
              outcomes_or_decisions = spec_sanitize_list rp ds,
              next_steps = spec_sanitize_list rp ns\<rparr>))"
  unfolding clean_minutes_def record_dict_def
  by (simp add: clean_summary_dict clean_field_iterable[OF assms(1)]
      clean_field_iterable[OF assms(2)] clean_field_iterable[OF assms(3)]
      clean_field_iterable[OF assms(4)])

text \<open>What a result of \<open>clean_minutes\<close> looks like.\<close>

lemma clean_field_Inr:
  "clean_field rp m k = Inr v \<Longrightarrow> \<exists>xs. v = JList (clean_items rp xs)"
  by (auto simp: clean_field_def split: sum.splits)

lemma clean_summary_Inr:
  "clean_summary rp m = Inr v \<Longrightarrow> \<exists>s. v = JStr s \<and> s \<noteq> [] \<and> strip s = s"
  by (auto simp: clean_summary_def Let_def strip_idem strip_placeholder placeholder_nonempty
           split: sum.splits)

lemma clean_minutes_Inr:
  assumes "clean_minutes rp m = Inr y"
  shows "\<exists>s ps ts ds ns. s \<noteq> [] \<and> strip s = s \<and>
           y = JObj [(u ''summary'', JStr s),
                     (u ''participants'', JList (clean_items rp ps)),
                     (u ''discussion_points'', JList (clean_items rp ts)),
                     (u ''outcomes_or_decisions'', JList (clean_items rp ds)),
                     (u ''next_steps'', JList (clean_items rp ns))]"
  using assms unfolding clean_minutes_def
  by (auto split: sum.splits dest!: clean_field_Inr clean_summary_Inr)

lemma clean_minutes_fixpoint:
  assumes "s \<noteq> []" "strip s = s"
  shows "clean_minutes rp (JObj [(u ''summary'', JStr s),
                   (u ''participants'', JList (clean_items rp ps)),
                   (u ''discussion_points'', JList (clean_items rp ts)),
                   (u ''outcomes_or_decisions'', JList (clean_items rp ds)),
                   (u ''next_steps'', JList (clean_items rp ns))]) =
         Inr (JObj [(u ''summary'', JStr s),
                   (u ''participants'', JList (clean_items rp ps)),
                   (u ''discussion_points'', JList (clean_items rp ts)),
                   (u ''outcomes_or_decisions'', JList (clean_items rp ds)),
                   (u ''next_steps'', JList (clean_items rp ns))])"
  using assms
  by (simp add: clean_minutes_def clean_summary_def clean_field_def dict_get_def
      clean_items_idem u_def)

text \<open>Iterable and non-iterable list fields.\<close>

lemma py_iter_non_iterable:
  "non_iterable v \<Longrightarrow> \<exists>m. py_iter v = Inl (TypeError m)"
  by (cases v) simp_all

lemma py_iter_iterable:
  "\<not> non_iterable v \<Longrightarrow> \<exists>xs. py_iter v = Inr xs"
  by (cases v) simp_all

lemma clean_field_cases:
  "(non_iterable (dict_get d k (JList [])) \<and> (\<exists>m. clean_field rp (JObj d) k = Inl (TypeError m)))
   \<or> (\<not> non_iterable (dict_get d k (JList [])) \<and> (\<exists>v. clean_field rp (JObj d) k = Inr v))"
proof (cases "non_iterable (dict_get d k (JList []))")
  case True
  then show ?thesis using py_iter_non_iterable[OF True] by (auto simp: clean_field_def)
next
  case False
  then show ?thesis using py_iter_iterable[OF False] by (auto simp: clean_field_def)
qed

lemma clean_minutes_non_iterable:
  assumes "has_non_iterable_field d"
  shows "\<exists>m. clean_minutes rp (JObj d) = Inl (TypeError m)"
proof -
  note c = clean_field_cases[of d _ rp]
  show ?thesis
    using assms c[of "u ''participants''"] c[of "u ''discussion_points''"]
      c[of "u ''outcomes_or_decisions''"] c[of "u ''next_steps''"]
    unfolding has_non_iterable_field_def list_field_keys_def clean_minutes_def clean_summary_dict
    by (elim disjE conjE exE) (simp_all)
qed

lemma clean_minutes_all_iterable:
  assumes "\<not> has_non_iterable_field d"
  shows "\<exists>r. clean_minutes rp (JObj d) = Inr (JObj (record_dict r))"
proof -
  from assms have n: "\<not> non_iterable (dict_get d (u ''participants'') (JList []))"
    "\<not> non_iterable (dict_get d (u ''discussion_points'') (JList []))"
    "\<not> non_iterable (dict_get d (u ''outcomes_or_decisions'') (JList []))"
    "\<not> non_iterable (dict_get d (u ''next_steps'') (JList []))"
    by (simp_all add: has_non_iterable_field_def list_field_keys_def)
  from n(1) obtain ps where 1: "py_iter (dict_get d (u ''participants'') (JList [])) = Inr ps"
    using py_iter_iterable by blast
  from n(2) obtain ts where 2: "py_iter (dict_get d (u ''discussion_points'') (JList [])) = Inr ts"
    using py_iter_iterable by blast
  from n(3) obtain ds where 3: "py_iter (dict_get d (u ''outcomes_or_decisions'') (JList [])) = Inr ds"
    using py_iter_iterable by blast
  from n(4) obtain ns where 4: "py_iter (dict_get d (u ''next_steps'') (JList [])) = Inr ns"
    using py_iter_iterable by blast
  show ?thesis using clean_minutes_iterable[OF 1 2 3 4, of rp] by blast
qed

lemma record_dict_keys: "py_keys (JObj (record_dict r)) = Some canonical_keys"
  by (simp add: record_dict_def canonical_keys_def)

lemma clean_minutes_Inr_record:
  assumes "clean_minutes rp m = Inr y"
  shows "\<exists>r. y = JObj (record_dict r)"
proof -
  from clean_minutes_Inr[OF assms] obtain s ps ts ds ns where
    y: "y = JObj [(u ''summary'', JStr s),
                     (u ''participants'', JList (clean_items rp ps)),
                     (u ''discussion_points'', JList (clean_items rp ts)),
                     (u ''outcomes_or_decisions'', JList (clean_items rp ds)),
                     (u ''next_steps'', JList (clean_items rp ns))]"
    by blast
  have "y = JObj (record_dict \<lparr>summary = s, participants = spec_sanitize_list rp ps,
            discussion_points = spec_sanitize_list rp ts,
            outcomes_or_decisions = spec_sanitize_list rp ds,
            next_steps = spec_sanitize_list rp ns\<rparr>)"
    by (simp add: y record_dict_def clean_items_spec)
  then show ?thesis by blast
qed

text \<open>Unfolding these evaluates the sanitizer on a concrete dict.\<close>

lemmas clean_eval =
  clean_minutes_def clean_summary_def clean_field_def clean_items_def dict_get_def
  u_def strip_def is_space_def digits.simps

section \<open>Sanitizing: the claims\<close>

text \<open>
  C2, as stated, fails: not every parsed response dictionary is sanitized into a record.
  For the response \<open>{"participants": null}\<close> the comprehension iterates over \<open>None\<close>
  and \<open>_clean_minutes\<close> raises \<open>TypeError\<close>.
\<close>

theorem clean_minutes_null_field_raises:
  "clean_minutes repr_unused (JObj [(u ''participants'', JNull)]) =
     Inl (TypeError (39 # u ''NoneType'' @ 39 # u '' object is not iterable''))"
  by (simp add: clean_eval)

text \<open>
  C2, amended: for every parsed response dictionary in which each of the four list fields
  is missing or holds an iterable value (a list; a string iterates as its characters, a
  dict as its keys), \<open>_clean_minutes\<close> returns the record in which each list field
  holds exactly the input elements coerced to strings and trimmed, those empty after
  trimming dropped, order kept, and the summary is the trimmed string of the input
  summary (the empty string when missing), replaced by "No summary available." when that
  is empty. For every parsed response dictionary in which some list field is present with
  a value that is not iterable (null, a boolean, a number), \<open>_clean_minutes\<close> raises
  \<open>TypeError\<close> and produces no record. Every dictionary is of one of the two kinds.
\<close>

theorem clean_minutes_sanitizes:
  "(py_iter (dict_get d (u ''participants'') (JList [])) = Inr ps
    \<and> py_iter (dict_get d (u ''discussion_points'') (JList [])) = Inr ts
    \<and> py_iter (dict_get d (u ''outcomes_or_decisions'') (JList [])) = Inr ds
    \<and> py_iter (dict_get d (u ''next_steps'') (JList [])) = Inr ns
    \<longrightarrow> clean_minutes rp (JObj d) =
          Inr (JObj (record_dict
            \<lparr>summary = spec_sanitize_summary rp (dict_get d (u ''summary'') (JStr [])),
             participants = spec_sanitize_list rp ps,
             discussion_points = spec_sanitize_list rp ts,
             outcomes_or_decisions = spec_sanitize_list rp ds,
             next_steps = spec_sanitize_list rp ns\<rparr>)))
   \<and> (has_non_iterable_field d \<longrightarrow> (\<exists>m. clean_minutes rp (JObj d) = Inl (TypeError m)))
   \<and> (has_non_iterable_field d
       \<or> (\<exists>ps ts ds ns.
            py_iter (dict_get d (u ''participants'') (JList [])) = Inr ps
            \<and> py_iter (dict_get d (u ''discussion_points'') (JList [])) = Inr ts
            \<and> py_iter (dict_get d (u ''outcomes_or_decisions'') (JList [])) = Inr ds
            \<and> py_iter (dict_get d (u ''next_steps'') (JList [])) = Inr ns))"
proof (intro conjI impI)
  assume "py_iter (dict_get d (u ''participants'') (JList [])) = Inr ps
    \<and> py_iter (dict_get d (u ''discussion_points'') (JList [])) = Inr ts
    \<and> py_iter (dict_get d (u ''outcomes_or_decisions'') (JList [])) = Inr ds
    \<and> py_iter (dict_get d (u ''next_steps'') (JList [])) = Inr ns"
  then show "clean_minutes rp (JObj d) =
          Inr (JObj (record_dict
            \<lparr>summary = spec_sanitize_summary rp (dict_get d (u ''summary'') (JStr [])),
             participants = spec_sanitize_list rp ps,
             discussion_points = spec_sanitize_list rp ts,
             outcomes_or_decisions = spec_sanitize_list rp ds,
             next_steps = spec_sanitize_list rp ns\<rparr>))"
    by (simp add: clean_minutes_iterable)
next
  assume "has_non_iterable_field d"
  then show "\<exists>m. clean_minutes rp (JObj d) = Inl (TypeError m)"
    by (rule clean_minutes_non_iterable)
next
  show "has_non_iterable_field d
       \<or> (\<exists>ps ts ds ns.
            py_iter (dict_get d (u ''participants'') (JList [])) = Inr ps
            \<and> py_iter (dict_get d (u ''discussion_points'') (JList [])) = Inr ts
            \<and> py_iter (dict_get d (u ''outcomes_or_decisions'') (JList [])) = Inr ds
            \<and> py_iter (dict_get d (u ''next_steps'') (JList [])) = Inr ns)"
    using py_iter_iterable
    by (auto simp: has_non_iterable_field_def list_field_keys_def)
qed

text \<open>
  The amended C2 at a response with a padded name, a number, a blank string and a null
  among the participants, a blank summary, a string where a list is expected, and two
  fields missing; and at a response whose \<open>discussion_points\<close> is \<open>true\<close>.
\<close>

theorem clean_minutes_sanitizes_witness:
  "py_iter (dict_get [(u ''participants'',
                         JList [JStr (u '' Al ''), JInt (- 12), JStr (u ''  ''), JNull]),
                      (u ''summary'', JStr (u ''  '')),
                      (u ''next_steps'', JStr (u ''a b''))]
              (u ''participants'') (JList []))
     = Inr [JStr (u '' Al ''), JInt (- 12), JStr (u ''  ''), JNull]
   \<and> py_iter (dict_get [(u ''participants'',
                         JList [JStr (u '' Al ''), JInt (- 12), JStr (u ''  ''), JNull]),
                      (u ''summary'', JStr (u ''  '')),
                      (u ''next_steps'', JStr (u ''a b''))]
              (u ''discussion_points'') (JList [])) = Inr []
   \<and> py_iter (dict_get [(u ''participants'',
                         JList [JStr (u '' Al ''), JInt (- 12), JStr (u ''  ''), JNull]),
                      (u ''summary'', JStr (u ''  '')),
                      (u ''next_steps'', JStr (u ''a b''))]
              (u ''outcomes_or_decisions'') (JList [])) = Inr []
   \<and> py_iter (dict_get [(u ''participants'',
                         JList [JStr (u '' Al ''), JInt (- 12), JStr (u ''  ''), JNull]),
                      (u ''summary'', JStr (u ''  '')),
                      (u ''next_steps'', JStr (u ''a b''))]
              (u ''next_steps'') (JList []))
     = Inr [JStr (u ''a''), JStr (u '' ''), JStr (u ''b'')]
   \<and> clean_minutes repr_unused
        (JObj [(u ''participants'',
                  JList [JStr (u '' Al ''), JInt (- 12), JStr (u ''  ''), JNull]),
               (u ''summary'', JStr (u ''  '')),
               (u ''next_steps'', JStr (u ''a b''))])
     = Inr (JObj [(u ''summary'', JStr (u ''No summary available.'')),
                  (u ''participants'',
                     JList [JStr (u ''Al''), JStr (u ''-12''), JStr (u ''None'')]),
                  (u ''discussion_points'', JList []),
                  (u ''outcomes_or_decisions'', JList []),
                  (u ''next_steps'', JList [JStr (u ''a''), JStr (u ''b'')])])
   \<and> has_non_iterable_field [(u ''summary'', JStr (u ''ok'')),
                              (u ''discussion_points'', JBool True)]
   \<and> (\<exists>m. clean_minutes repr_unused
              (JObj [(u ''summary'', JStr (u ''ok'')), (u ''discussion_points'', JBool True)])
            = Inl (TypeError m))"
proof -
  let ?d = "[(u ''participants'',
                JList [JStr (u '' Al ''), JInt (- 12), JStr (u ''  ''), JNull]),
             (u ''summary'', JStr (u ''  '')),
             (u ''next_steps'', JStr (u ''a b''))]"
  let ?b = "[(u ''summary'', JStr (u ''ok'')), (u ''discussion_points'', JBool True)]"
  have h1: "py_iter (dict_get ?d (u ''participants'') (JList []))
              = Inr [JStr (u '' Al ''), JInt (- 12), JStr (u ''  ''), JNull]"
    by (simp add: dict_get_def u_def)
  have h2: "py_iter (dict_get ?d (u ''discussion_points'') (JList [])) = Inr []"
    by (simp add: dict_get_def u_def)
  have h3: "py_iter (dict_get ?d (u ''outcomes_or_decisions'') (JList [])) = Inr []"
    by (simp add: dict_get_def u_def)
  have h4: "py_iter (dict_get ?d (u ''next_steps'') (JList []))
              = Inr [JStr (u ''a''), JStr (u '' ''), JStr (u ''b'')]"
    by (simp add: dict_get_def u_def)
  have h5: "has_non_iterable_field ?b"
    by (simp add: has_non_iterable_field_def list_field_keys_def dict_get_def u_def)
  have s: "dict_get ?d (u ''summary'') (JStr []) = JStr (u ''  '')"
    by (simp add: dict_get_def u_def)
  have e: "strip (u ''  '') = []" "strip (u '' Al '') = u ''Al''"
    "strip (u ''None'') = u ''None''" "strip [45, 49, 50] = u ''-12''"
    "strip (u ''a'') = u ''a''" "strip (u ''b'') = u ''b''" "strip (u '' '') = []"
    by (simp_all add: strip_def is_space_def u_def)
  have n: "u ''Al'' \<noteq> []" "u ''None'' \<noteq> []" "u ''-12'' \<noteq> []" "u ''a'' \<noteq> []"
    "u ''b'' \<noteq> []"
    by (simp_all add: u_def)
  have g: "digits 12 = [49, 50]"
    by (simp add: digits.simps)
  have a: "clean_minutes repr_unused (JObj ?d)
     = Inr (JObj [(u ''summary'', JStr (u ''No summary available.'')),
                  (u ''participants'',
                     JList [JStr (u ''Al''), JStr (u ''-12''), JStr (u ''None'')]),
                  (u ''discussion_points'', JList []),
                  (u ''outcomes_or_decisions'', JList []),
                  (u ''next_steps'', JList [JStr (u ''a''), JStr (u ''b'')])])"
    using h1 h2 h3 h4
      clean_minutes_sanitizes [where d = ?d and rp = repr_unused
        and ps = "[JStr (u '' Al ''), JInt (- 12), JStr (u ''  ''), JNull]"
        and ts = "[]" and ds = "[]" and ns = "[JStr (u ''a''), JStr (u '' ''), JStr (u ''b'')]"]
    by (simp add: s record_dict_def spec_sanitize_summary_def spec_sanitize_list_def e n g)
  have b: "\<exists>m. clean_minutes repr_unused (JObj ?b) = Inl (TypeError m)"
    using h5 clean_minutes_sanitizes [where d = ?b and rp = repr_unused] by blast
  show ?thesis using h1 h2 h3 h4 a h5 b by (intro conjI)
qed

text \<open>
  C6: sanitizing is idempotent. Whenever \<open>_clean_minutes\<close> returns a record for an
  input, applying it to that record returns the same record.
\<close>

theorem clean_minutes_idempotent:
  "clean_minutes rp x = Inr y \<Longrightarrow> clean_minutes rp y = Inr y"
  using clean_minutes_Inr clean_minutes_fixpoint by blast

text \<open>C6 at a response with a padded summary, a number and an empty participant.\<close>

theorem clean_minutes_idempotent_witness:
  "clean_minutes repr_unused
     (JObj [(u ''summary'', JStr (u '' ok '')), (u ''participants'', JList [JInt 7, JStr []])])
     = Inr (JObj [(u ''summary'', JStr (u ''ok'')),
                  (u ''participants'', JList [JStr (u ''7'')]),
                  (u ''discussion_points'', JList []),
                  (u ''outcomes_or_decisions'', JList []),
                  (u ''next_steps'', JList [])])
   \<and> clean_minutes repr_unused
        (JObj [(u ''summary'', JStr (u ''ok'')),
               (u ''participants'', JList [JStr (u ''7'')]),
               (u ''discussion_points'', JList []),
               (u ''outcomes_or_decisions'', JList []),
               (u ''next_steps'', JList [])])
     = Inr (JObj [(u ''summary'', JStr (u ''ok'')),
                  (u ''participants'', JList [JStr (u ''7'')]),
                  (u ''discussion_points'', JList []),
                  (u ''outcomes_or_decisions'', JList []),
                  (u ''next_steps'', JList [])])"
proof -
  have h: "clean_minutes repr_unused
     (JObj [(u ''summary'', JStr (u '' ok '')), (u ''participants'', JList [JInt 7, JStr []])])
     = Inr (JObj [(u ''summary'', JStr (u ''ok'')),
                  (u ''participants'', JList [JStr (u ''7'')]),
                  (u ''discussion_points'', JList []),
                  (u ''outcomes_or_decisions'', JList []),
                  (u ''next_steps'', JList [])])"
    by (simp add: clean_eval)
  show ?thesis using h clean_minutes_idempotent [OF h] by (rule conjI)
qed

text \<open>
  C3, as stated, fails: in the fallback record the canonical list field \<open>next_steps\<close>
  is not empty. It holds one entry, so the record has two non-empty list fields.
\<close>

theorem fallback_next_steps_not_empty:
  "py_get create_fallback_minutes (u ''next_steps'') (JList [])
     = Inr (JList [JStr (u ''Review transcript manually'')])
   \<and> py_get create_fallback_minutes (u ''next_steps'') (JList []) \<noteq> Inr (JList [])"
  by (simp add: create_fallback_minutes_def dict_get_def u_def)

text \<open>
  C3, amended: the fallback record has the keys \<open>summary\<close>, \<open>participants\<close>,
  \<open>key_topics\<close>, \<open>decisions\<close>, \<open>action_items\<close> and \<open>next_steps\<close>. Its list fields
  \<open>participants\<close>, \<open>decisions\<close> and \<open>action_items\<close> are empty; \<open>key_topics\<close>, which
  is not part of the canonical schema, holds the single marker "Manual review required",
  and \<open>next_steps\<close> holds the single entry "Review transcript manually". The canonical
  fields \<open>discussion_points\<close> and \<open>outcomes_or_decisions\<close> are absent, so a lookup with
  an empty-list default reads them as empty.
\<close>

theorem fallback_minutes_fields:
  "py_keys create_fallback_minutes =
     Some [u ''summary'', u ''participants'', u ''key_topics'', u ''decisions'',
           u ''action_items'', u ''next_steps'']
   \<and> py_get create_fallback_minutes (u ''participants'') JNull = Inr (JList [])
   \<and> py_get create_fallback_minutes (u ''decisions'') JNull = Inr (JList [])
   \<and> py_get create_fallback_minutes (u ''action_items'') JNull = Inr (JList [])
   \<and> py_get create_fallback_minutes (u ''key_topics'') JNull
       = Inr (JList [JStr (u ''Manual review required'')])
   \<and> py_get create_fallback_minutes (u ''next_steps'') JNull
       = Inr (JList [JStr (u ''Review transcript manually'')])
   \<and> py_get create_fallback_minutes (u ''discussion_points'') JNull = Inr JNull
   \<and> py_get create_fallback_minutes (u ''outcomes_or_decisions'') JNull = Inr JNull
   \<and> py_get create_fallback_minutes (u ''discussion_points'') (JList []) = Inr (JList [])
   \<and> py_get create_fallback_minutes (u ''outcomes_or_decisions'') (JList []) = Inr (JList [])"
  by (simp add: create_fallback_minutes_def dict_get_def u_def)

section \<open>The client: the claims\<close>

lemma str_or_nonempty: "d \<noteq> [] \<Longrightarrow> str_or x d \<noteq> []"
  by (cases x) auto

lemma not_initialized_nonempty: "u ''OpenAI client is not initialized'' \<noteq> []"
  by (simp add: u_def)

lemma generate_unconfigured:
  "client self = None \<Longrightarrow>
   generate_meeting_minutes rp prov self t = Inr (create_fallback_minutes, self, [])"
  by (simp add: generate_meeting_minutes_def)

lemma generate_configured:
  "client self = Some c \<Longrightarrow>
   generate_meeting_minutes rp prov self t =
     (case generate_body rp prov c (model self) t of
        Inr cleaned \<Rightarrow> Inr (cleaned, self, [ChatCompletion (model self) (user_message t)])
      | Inl e \<Rightarrow> Inr (create_fallback_minutes, self\<lparr>last_error := Some (exn_str e)\<rparr>,
                     [ChatCompletion (model self) (user_message t)]))"
  by (simp add: generate_meeting_minutes_def try_except_def Let_def split: sum.splits)

lemma generate_returns: "\<exists>r. generate_meeting_minutes rp prov self t = Inr r"
proof (cases "client self")
  case None
  then show ?thesis by (simp add: generate_unconfigured)
next
  case (Some c)
  then show ?thesis by (simp add: generate_configured split: sum.splits)
qed

lemma fallback_summary:
  "py_get create_fallback_minutes (u ''summary'') (JStr []) =
     Inr (JStr (u ''Could not automatically generate minutes. Manual review required.''))"
  by (simp add: create_fallback_minutes_def dict_get_def)

text \<open>
  C1: \<open>generate_meeting_minutes\<close> never raises to its caller. For every transcript it
  returns; and when the completion call raises, or the response body cannot be parsed
  (\<open>json.loads\<close> raises, or there is no first choice or no content to parse), it
  returns the fallback record and stores the text of the exception in \<open>last_error\<close>.
  The summary of the fallback record is the fixed sentinel string.
\<close>

theorem generate_never_raises:
  "(\<exists>r. generate_meeting_minutes rp prov self t = Inr r)
   \<and> (client self = Some c
        \<and> (chat_create prov c (model self) (user_message t) = Inl e
             \<or> (\<exists>resp. chat_create prov c (model self) (user_message t) = Inr resp
                        \<and> loads_first_choice prov resp = Inl e))
      \<longrightarrow> generate_meeting_minutes rp prov self t =
            Inr (create_fallback_minutes, self\<lparr>last_error := Some (exn_str e)\<rparr>,
                 [ChatCompletion (model self) (user_message t)]))
   \<and> py_get create_fallback_minutes (u ''summary'') (JStr []) =
       Inr (JStr (u ''Could not automatically generate minutes. Manual review required.''))"
proof (intro conjI impI)
  show "\<exists>r. generate_meeting_minutes rp prov self t = Inr r" by (rule generate_returns)
next
  assume a: "client self = Some c
        \<and> (chat_create prov c (model self) (user_message t) = Inl e
             \<or> (\<exists>resp. chat_create prov c (model self) (user_message t) = Inr resp
                        \<and> loads_first_choice prov resp = Inl e))"
  then have "generate_body rp prov c (model self) t = Inl e"
    by (auto simp: generate_body_def)
  with a show "generate_meeting_minutes rp prov self t =
            Inr (create_fallback_minutes, self\<lparr>last_error := Some (exn_str e)\<rparr>,
                 [ChatCompletion (model self) (user_message t)])"
    by (simp add: generate_configured)
next
  show "py_get create_fallback_minutes (u ''summary'') (JStr []) =
       Inr (JStr (u ''Could not automatically generate minutes. Manual review required.''))"
    by (rule fallback_summary)
qed

text \<open>
  C1 at a configured client whose completion call raises "Connection error.", and at one
  whose response body is not JSON.
\<close>

theorem generate_never_raises_witness:
  "(client \<lparr>client = Some (), model = u ''gpt-4o-mini'', last_error = None\<rparr> = Some ()
    \<and> chat_create (stub_provider (Inr ()) (Inl (ExternalError (u ''Connection error.'')))
                     (Inr JNull)) ()
         (model \<lparr>client = Some (), model = u ''gpt-4o-mini'', last_error = None\<rparr>)
         (user_message (u ''Alice: hi'')) = Inl (ExternalError (u ''Connection error.''))
    \<and> generate_meeting_minutes repr_unused
         (stub_provider (Inr ()) (Inl (ExternalError (u ''Connection error.''))) (Inr JNull))
         \<lparr>client = Some (), model = u ''gpt-4o-mini'', last_error = None\<rparr> (u ''Alice: hi'')
       = Inr (create_fallback_minutes,
              \<lparr>client = Some (), model = u ''gpt-4o-mini'',
               last_error = Some (u ''Connection error.'')\<rparr>,
              [ChatCompletion (u ''gpt-4o-mini'') (user_message (u ''Alice: hi''))]))
   \<and> (chat_create (stub_provider (Inr ()) (Inr [Some (u ''oops'')])
                     (Inl (ExternalError (u ''Expecting value: line 1 column 1 (char 0)'')))) ()
         (model \<lparr>client = Some (), model = u ''gpt-4o-mini'', last_error = None\<rparr>)
         (user_message (u ''Alice: hi'')) = Inr [Some (u ''oops'')]
    \<and> loads_first_choice
         (stub_provider (Inr ()) (Inr [Some (u ''oops'')])
            (Inl (ExternalError (u ''Expecting value: line 1 column 1 (char 0)''))))
         [Some (u ''oops'')]
       = Inl (ExternalError (u ''Expecting value: line 1 column 1 (char 0)''))
    \<and> generate_meeting_minutes repr_unused
         (stub_provider (Inr ()) (Inr [Some (u ''oops'')])
            (Inl (ExternalError (u ''Expecting value: line 1 column 1 (char 0)''))))
         \<lparr>client = Some (), model = u ''gpt-4o-mini'', last_error = None\<rparr> (u ''Alice: hi'')
       = Inr (create_fallback_minutes,
              \<lparr>client = Some (), model = u ''gpt-4o-mini'',
               last_error = Some (u ''Expecting value: line 1 column 1 (char 0)'')\<rparr>,
              [ChatCompletion (u ''gpt-4o-mini'') (user_message (u ''Alice: hi''))]))"
proof -
  let ?p = "stub_provider (Inr ()) (Inl (ExternalError (u ''Connection error.''))) (Inr JNull)"
  let ?q = "stub_provider (Inr ()) (Inr [Some (u ''oops'')])
              (Inl (ExternalError (u ''Expecting value: line 1 column 1 (char 0)'')))"
  let ?s = "\<lparr>client = Some (), model = u ''gpt-4o-mini'', last_error = None\<rparr>"
  have h1: "client ?s = Some ()" by simp
  have h2: "chat_create ?p () (model ?s) (user_message (u ''Alice: hi''))
              = Inl (ExternalError (u ''Connection error.''))"
    by (simp add: stub_provider_def)
  have h3: "chat_create ?q () (model ?s) (user_message (u ''Alice: hi''))
              = Inr [Some (u ''oops'')]"
    by (simp add: stub_provider_def)
  have h4: "loads_first_choice ?q [Some (u ''oops'')]
              = Inl (ExternalError (u ''Expecting value: line 1 column 1 (char 0)''))"
    by (simp add: loads_first_choice_def stub_provider_def)
  have a: "generate_meeting_minutes repr_unused ?p ?s (u ''Alice: hi'')
       = Inr (create_fallback_minutes,
              \<lparr>client = Some (), model = u ''gpt-4o-mini'',
               last_error = Some (u ''Connection error.'')\<rparr>,
              [ChatCompletion (u ''gpt-4o-mini'') (user_message (u ''Alice: hi''))])"
    using h1 h2 generate_never_raises [of repr_unused ?p ?s "u ''Alice: hi''" "()"
        "ExternalError (u ''Connection error.'')"]
    by simp
  have b: "generate_meeting_minutes repr_unused ?q ?s (u ''Alice: hi'')
       = Inr (create_fallback_minutes,
              \<lparr>client = Some (), model = u ''gpt-4o-mini'',
               last_error = Some (u ''Expecting value: line 1 column 1 (char 0)'')\<rparr>,
              [ChatCompletion (u ''gpt-4o-mini'') (user_message (u ''Alice: hi''))])"
    using h1 h3 h4 generate_never_raises [of repr_unused ?q ?s "u ''Alice: hi''" "()"
        "ExternalError (u ''Expecting value: line 1 column 1 (char 0)'')"]
    by simp
  show ?thesis using h1 h2 h3 h4 a b by (intro conjI)
qed

text \<open>
  C7: on an unconfigured client (no \<open>client\<close> object) \<open>test_connection\<close> returns
  \<open>(False, m)\<close> with a non-empty message \<open>m\<close>, and \<open>generate_meeting_minutes\<close>
  returns the fallback record; neither attempts a network call, and neither changes the
  object.
\<close>

theorem unconfigured_no_network_call:
  assumes "client self = None"
  shows "(\<exists>m. test_connection prov self = Inr ((False, m), self, []) \<and> m \<noteq> [])
         \<and> generate_meeting_minutes rp prov self t = Inr (create_fallback_minutes, self, [])"
  using assms
  by (simp add: test_connection_def generate_unconfigured str_or_nonempty not_initialized_nonempty)

text \<open>C7 at an unconfigured client whose \<open>last_error\<close> is the empty string.\<close>

theorem unconfigured_no_network_call_witness:
  "client \<lparr>client = None, model = u ''gpt-4o-mini'', last_error = Some []\<rparr> = (None :: unit option)
   \<and> test_connection (stub_provider (Inr ()) (Inr []) (Inr JNull))
        \<lparr>client = None, model = u ''gpt-4o-mini'', last_error = Some []\<rparr>
      = Inr ((False, u ''OpenAI client is not initialized''),
             \<lparr>client = None, model = u ''gpt-4o-mini'', last_error = Some []\<rparr>, [])
   \<and> generate_meeting_minutes repr_unused (stub_provider (Inr ()) (Inr []) (Inr JNull))
        \<lparr>client = None, model = u ''gpt-4o-mini'', last_error = Some []\<rparr> (u ''Alice: hi'')
      = Inr (create_fallback_minutes,
             \<lparr>client = None, model = u ''gpt-4o-mini'', last_error = Some []\<rparr>, [])"
proof -
  let ?s = "\<lparr>client = None, model = u ''gpt-4o-mini'', last_error = Some []\<rparr> :: unit openai_client"
  have h: "client ?s = None" by simp
  show ?thesis
    using h unconfigured_no_network_call [OF h, of "stub_provider (Inr ()) (Inr []) (Inr JNull)"
        repr_unused "u ''Alice: hi''"]
    by (simp add: test_connection_def)
qed

text \<open>
  C8, as stated, fails: a successful \<open>test_connection\<close> does not write \<open>last_error\<close>.
  After it the field still holds the stale text it held before, and \<open>None\<close> when it
  held \<open>None\<close>: the value after the operation is the value before it.
\<close>

theorem last_error_survives_success:
  "test_connection (stub_provider (Inr ()) (Inr []) (Inr JNull))
     \<lparr>client = Some (), model = u ''gpt-4o-mini'', last_error = Some (u ''stale'')\<rparr>
   = Inr ((True, u ''Connection successful''),
          \<lparr>client = Some (), model = u ''gpt-4o-mini'', last_error = Some (u ''stale'')\<rparr>,
          [ModelsList])
   \<and> test_connection (stub_provider (Inr ()) (Inr []) (Inr JNull))
     \<lparr>client = Some (), model = u ''gpt-4o-mini'', last_error = None\<rparr>
   = Inr ((True, u ''Connection successful''),
          \<lparr>client = Some (), model = u ''gpt-4o-mini'', last_error = None\<rparr>,
          [ModelsList])"
  by (simp add: test_connection_def stub_provider_def try_except_def)

text \<open>
  C8, amended: \<open>_init_client\<close> (and so \<open>set_api_key\<close>) overwrites \<open>last_error\<close> on
  every path: with the missing-key reason, with \<open>None\<close> when the client is built, with
  the text of the failure when the constructor raises. \<open>test_connection\<close> and
  \<open>generate_meeting_minutes\<close> always return, and they write \<open>last_error\<close> (the text
  of the exception) only when the call in their \<open>try\<close> block raises; on an unconfigured
  client and on success they leave the object as it was.
\<close>

theorem last_error_writes:
  "last_error (init_client prov self api_key base_url) =
     (case opt_or api_key None of
        None \<Rightarrow> Some (u ''OPENAI_API_KEY is missing'')
      | Some key \<Rightarrow>
          (case new_client prov key (opt_or base_url None) of
             Inr c \<Rightarrow> None
           | Inl e \<Rightarrow> Some (u ''Failed to initialize OpenAI client: '' @ exn_str e)))
   \<and> snd (set_api_key prov self k) = init_client prov self (Some k) None
   \<and> (\<exists>res self' calls. test_connection prov self = Inr (res, self', calls)
        \<and> self' = (case client self of
                      None \<Rightarrow> self
                    | Some c \<Rightarrow> (case models_list prov c of
                                   Inr ok \<Rightarrow> self
                                 | Inl e \<Rightarrow> self\<lparr>last_error := Some (exn_str e)\<rparr>)))
   \<and> (\<exists>minutes self' calls.
          generate_meeting_minutes rp prov self t = Inr (minutes, self', calls)
        \<and> self' = (case client self of
                      None \<Rightarrow> self
                    | Some c \<Rightarrow> (case generate_body rp prov c (model self) t of
                                   Inr cleaned \<Rightarrow> self
                                 | Inl e \<Rightarrow> self\<lparr>last_error := Some (exn_str e)\<rparr>)))"
proof (intro conjI)
  show "last_error (init_client prov self api_key base_url) =
     (case opt_or api_key None of
        None \<Rightarrow> Some (u ''OPENAI_API_KEY is missing'')
      | Some key \<Rightarrow>
          (case new_client prov key (opt_or base_url None) of
             Inr c \<Rightarrow> None
           | Inl e \<Rightarrow> Some (u ''Failed to initialize OpenAI client: '' @ exn_str e)))"
    by (simp add: init_client_def split: option.splits sum.splits)
  show "snd (set_api_key prov self k) = init_client prov self (Some k) None"
    by (simp add: set_api_key_def Let_def)
  show "\<exists>res self' calls. test_connection prov self = Inr (res, self', calls)
        \<and> self' = (case client self of
                      None \<Rightarrow> self
                    | Some c \<Rightarrow> (case models_list prov c of
                                   Inr ok \<Rightarrow> self
                                 | Inl e \<Rightarrow> self\<lparr>last_error := Some (exn_str e)\<rparr>))"
    by (auto simp: test_connection_def try_except_def split: option.splits sum.splits)
  show "\<exists>minutes self' calls.
          generate_meeting_minutes rp prov self t = Inr (minutes, self', calls)
        \<and> self' = (case client self of
                      None \<Rightarrow> self
                    | Some c \<Rightarrow> (case generate_body rp prov c (model self) t of
                                   Inr cleaned \<Rightarrow> self
                                 | Inl e \<Rightarrow> self\<lparr>last_error := Some (exn_str e)\<rparr>))"
    by (cases "client self") (auto simp: generate_unconfigured generate_configured split: sum.splits)
qed

section \<open>The successful-parse path: the claims\<close>

lemma generate_parsed:
  assumes "client self = Some c"
    and "chat_create prov c (model self) (user_message t) = Inr resp"
    and "loads_first_choice prov resp = Inr minutes"
  shows "generate_meeting_minutes rp prov self t =
     (case clean_minutes rp minutes of
        Inr cleaned \<Rightarrow> Inr (cleaned, self, [ChatCompletion (model self) (user_message t)])
      | Inl e \<Rightarrow> Inr (create_fallback_minutes, self\<lparr>last_error := Some (exn_str e)\<rparr>,
                     [ChatCompletion (model self) (user_message t)]))"
  using assms by (simp add: generate_configured generate_body_def)

lemma generate_result_cases:
  assumes "generate_meeting_minutes rp prov self t = Inr (y, self', calls)"
  shows "y = create_fallback_minutes \<or> (\<exists>r. y = JObj (record_dict r))"
proof (cases "client self")
  case None
  then show ?thesis using assms by (simp add: generate_unconfigured)
next
  case (Some c)
  show ?thesis
  proof (cases "generate_body rp prov c (model self) t")
    case (Inl e)
    then show ?thesis using assms Some by (simp add: generate_configured)
  next
    case (Inr cleaned)
    then obtain m where "clean_minutes rp m = Inr cleaned"
      by (auto simp: generate_body_def split: sum.splits)
    then have "\<exists>r. cleaned = JObj (record_dict r)" by (rule clean_minutes_Inr_record)
    moreover have "y = cleaned" using assms Some Inr by (simp add: generate_configured)
    ultimately show ?thesis by simp
  qed
qed

text \<open>
  C10, as stated, fails: for the input dictionary \<open>{"next_steps": 3, "mood": "tense"}\<close>
  the sanitize step returns no record at all; it raises \<open>TypeError\<close>.
\<close>

theorem clean_minutes_number_field_raises:
  "clean_minutes repr_unused (JObj [(u ''next_steps'', JInt 3), (u ''mood'', JStr (u ''tense''))])
     = Inl (TypeError (39 # u ''int'' @ 39 # u '' object is not iterable''))"
  by (simp add: clean_eval)

text \<open>
  C10, amended: for every input dictionary in which each of the four list fields is
  missing or holds an iterable value, \<open>_clean_minutes\<close> returns the dict of a
  MinutesRecord, whose keys are exactly the five canonical keys, whatever other keys the
  input has; for every input dictionary in which some list field is present with a value
  that is not iterable (null, a boolean, a number) it raises \<open>TypeError\<close> and returns
  no record. So when the response parses to a dictionary of the first kind,
  \<open>generate_meeting_minutes\<close> returns such a canonical record; when it parses to a
  dictionary of the second kind, \<open>generate_meeting_minutes\<close> returns the fallback
  record and stores the text of the \<open>TypeError\<close> in \<open>last_error\<close>. Every record
  \<open>generate_meeting_minutes\<close> returns is the fallback record or the dict of a
  MinutesRecord with exactly the five canonical keys; the keys of the fallback record
  are not the canonical ones.
\<close>

theorem clean_minutes_canonical_keys:
  "(\<not> has_non_iterable_field d \<longrightarrow>
      (\<exists>r. clean_minutes rp (JObj d) = Inr (JObj (record_dict r))
           \<and> py_keys (JObj (record_dict r)) = Some canonical_keys))
   \<and> (has_non_iterable_field d \<longrightarrow> (\<exists>m. clean_minutes rp (JObj d) = Inl (TypeError m)))
   \<and> (client self = Some c
       \<and> chat_create prov c (model self) (user_message t) = Inr resp
       \<and> loads_first_choice prov resp = Inr (JObj d)
       \<and> \<not> has_non_iterable_field d
       \<longrightarrow> (\<exists>r. generate_meeting_minutes rp prov self t =
                  Inr (JObj (record_dict r), self,
                       [ChatCompletion (model self) (user_message t)])
                \<and> py_keys (JObj (record_dict r)) = Some canonical_keys))
   \<and> (client self = Some c
       \<and> chat_create prov c (model self) (user_message t) = Inr resp
       \<and> loads_first_choice prov resp = Inr (JObj d)
       \<and> has_non_iterable_field d
       \<longrightarrow> (\<exists>m. clean_minutes rp (JObj d) = Inl (TypeError m)
                \<and> generate_meeting_minutes rp prov self t =
                  Inr (create_fallback_minutes, self\<lparr>last_error := Some m\<rparr>,
                       [ChatCompletion (model self) (user_message t)])))
   \<and> (generate_meeting_minutes rp prov self t = Inr (y, self', calls)
       \<longrightarrow> y = create_fallback_minutes
           \<or> (\<exists>r. y = JObj (record_dict r) \<and> py_keys y = Some canonical_keys))
   \<and> py_keys create_fallback_minutes \<noteq> Some canonical_keys"
proof (intro conjI impI)
  assume "\<not> has_non_iterable_field d"
  then show "\<exists>r. clean_minutes rp (JObj d) = Inr (JObj (record_dict r))
           \<and> py_keys (JObj (record_dict r)) = Some canonical_keys"
    using clean_minutes_all_iterable record_dict_keys by blast
next
  assume "has_non_iterable_field d"
  then show "\<exists>m. clean_minutes rp (JObj d) = Inl (TypeError m)"
    by (rule clean_minutes_non_iterable)
next
  assume a: "client self = Some c
       \<and> chat_create prov c (model self) (user_message t) = Inr resp
       \<and> loads_first_choice prov resp = Inr (JObj d)
       \<and> \<not> has_non_iterable_field d"
  then obtain r where "clean_minutes rp (JObj d) = Inr (JObj (record_dict r))"
    using clean_minutes_all_iterable by blast
  with a have "generate_meeting_minutes rp prov self t =
                  Inr (JObj (record_dict r), self,
                       [ChatCompletion (model self) (user_message t)])"
    by (simp add: generate_parsed)
  then show "\<exists>r. generate_meeting_minutes rp prov self t =
                  Inr (JObj (record_dict r), self,
                       [ChatCompletion (model self) (user_message t)])
                \<and> py_keys (JObj (record_dict r)) = Some canonical_keys"
    using record_dict_keys by blast
next
  assume a: "client self = Some c
       \<and> chat_create prov c (model self) (user_message t) = Inr resp
       \<and> loads_first_choice prov resp = Inr (JObj d)
       \<and> has_non_iterable_field d"
  then obtain m where m: "clean_minutes rp (JObj d) = Inl (TypeError m)"
    using clean_minutes_non_iterable by blast
  with a have "generate_meeting_minutes rp prov self t =
                  Inr (create_fallback_minutes, self\<lparr>last_error := Some m\<rparr>,
                       [ChatCompletion (model self) (user_message t)])"
    by (simp add: generate_parsed)
  with m show "\<exists>m. clean_minutes rp (JObj d) = Inl (TypeError m)
                \<and> generate_meeting_minutes rp prov self t =
                  Inr (create_fallback_minutes, self\<lparr>last_error := Some m\<rparr>,
                       [ChatCompletion (model self) (user_message t)])"
    by blast
next
  assume "generate_meeting_minutes rp prov self t = Inr (y, self', calls)"
  then show "y = create_fallback_minutes
           \<or> (\<exists>r. y = JObj (record_dict r) \<and> py_keys y = Some canonical_keys)"
    using generate_result_cases record_dict_keys by blast
next
  show "py_keys create_fallback_minutes \<noteq> Some canonical_keys"
    by (simp add: create_fallback_minutes_def canonical_keys_def)
qed

text \<open>
  The amended C10 at a response with an extra key \<open>mood\<close> and a dict where a list is
  expected, which the client returns sanitized, and at a response whose
  \<open>participants\<close> is \<open>null\<close>, for which the client returns the fallback record.
\<close>

theorem clean_minutes_canonical_keys_witness:
  "(\<not> has_non_iterable_field
        [(u ''mood'', JStr (u ''tense'')), (u ''participants'', JObj [(u ''Bo'', JNull)])]
    \<and> (\<exists>r. clean_minutes repr_unused
               (JObj [(u ''mood'', JStr (u ''tense'')),
                      (u ''participants'', JObj [(u ''Bo'', JNull)])])
             = Inr (JObj (record_dict r))
             \<and> py_keys (JObj (record_dict r)) = Some canonical_keys))
   \<and> (has_non_iterable_field [(u ''summary'', JStr (u ''s'')), (u ''participants'', JNull)]
      \<and> (\<exists>m. clean_minutes repr_unused
                 (JObj [(u ''summary'', JStr (u ''s'')), (u ''participants'', JNull)])
               = Inl (TypeError m)))
   \<and> (client \<lparr>client = Some (), model = u ''gpt-4o-mini'', last_error = None\<rparr> = Some ()
      \<and> chat_create
           (stub_provider (Inr ()) (Inr [Some (u ''body'')])
              (Inr (JObj [(u ''mood'', JStr (u ''tense'')),
                          (u ''participants'', JObj [(u ''Bo'', JNull)])]))) ()
           (model \<lparr>client = Some (), model = u ''gpt-4o-mini'', last_error = None\<rparr>)
           (user_message (u ''Bo: hi'')) = Inr [Some (u ''body'')]
      \<and> loads_first_choice
           (stub_provider (Inr ()) (Inr [Some (u ''body'')])
              (Inr (JObj [(u ''mood'', JStr (u ''tense'')),
                          (u ''participants'', JObj [(u ''Bo'', JNull)])])))
           [Some (u ''body'')]
         = Inr (JObj [(u ''mood'', JStr (u ''tense'')),
                      (u ''participants'', JObj [(u ''Bo'', JNull)])])
      \<and> (\<exists>r. generate_meeting_minutes repr_unused
                 (stub_provider (Inr ()) (Inr [Some (u ''body'')])
                    (Inr (JObj [(u ''mood'', JStr (u ''tense'')),
                                (u ''participants'', JObj [(u ''Bo'', JNull)])])))
                 \<lparr>client = Some (), model = u ''gpt-4o-mini'', last_error = None\<rparr>
                 (u ''Bo: hi'')
               = Inr (JObj (record_dict r),
                      \<lparr>client = Some (), model = u ''gpt-4o-mini'', last_error = None\<rparr>,
                      [ChatCompletion (u ''gpt-4o-mini'') (user_message (u ''Bo: hi''))])
               \<and> py_keys (JObj (record_dict r)) = Some canonical_keys))
   \<and> (chat_create
           (stub_provider (Inr ()) (Inr [Some (u ''body'')])
              (Inr (JObj [(u ''summary'', JStr (u ''s'')), (u ''participants'', JNull)]))) ()
           (model \<lparr>client = Some (), model = u ''gpt-4o-mini'', last_error = None\<rparr>)
           (user_message (u ''Bo: hi'')) = Inr [Some (u ''body'')]
      \<and> loads_first_choice
           (stub_provider (Inr ()) (Inr [Some (u ''body'')])
              (Inr (JObj [(u ''summary'', JStr (u ''s'')), (u ''participants'', JNull)])))
           [Some (u ''body'')]
         = Inr (JObj [(u ''summary'', JStr (u ''s'')), (u ''participants'', JNull)])
      \<and> (\<exists>m. clean_minutes repr_unused
                 (JObj [(u ''summary'', JStr (u ''s'')), (u ''participants'', JNull)])
               = Inl (TypeError m)
               \<and> generate_meeting_minutes repr_unused
                 (stub_provider (Inr ()) (Inr [Some (u ''body'')])
                    (Inr (JObj [(u ''summary'', JStr (u ''s'')), (u ''participants'', JNull)])))
                 \<lparr>client = Some (), model = u ''gpt-4o-mini'', last_error = None\<rparr>
                 (u ''Bo: hi'')
               = Inr (create_fallback_minutes,
                      \<lparr>client = Some (), model = u ''gpt-4o-mini'', last_error = Some m\<rparr>,
                      [ChatCompletion (u ''gpt-4o-mini'') (user_message (u ''Bo: hi''))])))
   \<and> (generate_meeting_minutes repr_unused
         (stub_provider (Inr ()) (Inr [Some (u ''body'')])
            (Inr (JObj [(u ''mood'', JStr (u ''tense'')),
                        (u ''participants'', JObj [(u ''Bo'', JNull)])])))
         \<lparr>client = Some (), model = u ''gpt-4o-mini'', last_error = None\<rparr>
         (u ''Bo: hi'')
       = Inr (JObj [(u ''summary'', JStr (u ''No summary available.'')),
                    (u ''participants'', JList [JStr (u ''Bo'')]),
                    (u ''discussion_points'', JList []),
                    (u ''outcomes_or_decisions'', JList []),
                    (u ''next_steps'', JList [])],
              \<lparr>client = Some (), model = u ''gpt-4o-mini'', last_error = None\<rparr>,
              [ChatCompletion (u ''gpt-4o-mini'') (user_message (u ''Bo: hi''))])
      \<and> (JObj [(u ''summary'', JStr (u ''No summary available.'')),
                (u ''participants'', JList [JStr (u ''Bo'')]),
                (u ''discussion_points'', JList []),
                (u ''outcomes_or_decisions'', JList []),
                (u ''next_steps'', JList [])] = create_fallback_minutes
          \<or> (\<exists>r. JObj [(u ''summary'', JStr (u ''No summary available.'')),
                        (u ''participants'', JList [JStr (u ''Bo'')]),
                        (u ''discussion_points'', JList []),
                        (u ''outcomes_or_decisions'', JList []),
                        (u ''next_steps'', JList [])] = JObj (record_dict r)
                  \<and> py_keys (JObj [(u ''summary'', JStr (u ''No summary available.'')),
                                   (u ''participants'', JList [JStr (u ''Bo'')]),
                                   (u ''discussion_points'', JList []),
                                   (u ''outcomes_or_decisions'', JList []),
                                   (u ''next_steps'', JList [])]) = Some canonical_keys)))
   \<and> py_keys create_fallback_minutes \<noteq> Some canonical_keys"
proof -
  let ?d = "[(u ''mood'', JStr (u ''tense'')), (u ''participants'', JObj [(u ''Bo'', JNull)])]"
  let ?b = "[(u ''summary'', JStr (u ''s'')), (u ''participants'', JNull)]"
  let ?p = "stub_provider (Inr ()) (Inr [Some (u ''body'')]) (Inr (JObj ?d))"
  let ?q = "stub_provider (Inr ()) (Inr [Some (u ''body'')]) (Inr (JObj ?b))"
  let ?s = "\<lparr>client = Some (), model = u ''gpt-4o-mini'', last_error = None\<rparr>"
  let ?t = "u ''Bo: hi''"
  let ?y = "JObj [(u ''summary'', JStr (u ''No summary available.'')),
                  (u ''participants'', JList [JStr (u ''Bo'')]),
                  (u ''discussion_points'', JList []),
                  (u ''outcomes_or_decisions'', JList []),
                  (u ''next_steps'', JList [])]"
  have h1: "\<not> has_non_iterable_field ?d"
    by (simp add: has_non_iterable_field_def list_field_keys_def dict_get_def u_def)
  have h2: "has_non_iterable_field ?b"
    by (simp add: has_non_iterable_field_def list_field_keys_def dict_get_def u_def)
  have h3: "client ?s = Some ()" by simp
  have h4: "chat_create ?p () (model ?s) (user_message ?t) = Inr [Some (u ''body'')]"
    by (simp add: stub_provider_def)
  have h5: "loads_first_choice ?p [Some (u ''body'')] = Inr (JObj ?d)"
    by (simp add: loads_first_choice_def stub_provider_def)
  have h6: "chat_create ?q () (model ?s) (user_message ?t) = Inr [Some (u ''body'')]"
    by (simp add: stub_provider_def)
  have h7: "loads_first_choice ?q [Some (u ''body'')] = Inr (JObj ?b)"
    by (simp add: loads_first_choice_def stub_provider_def)
  have c: "clean_minutes repr_unused (JObj ?d) = Inr ?y"
    by (simp add: clean_eval)
  have h8: "generate_meeting_minutes repr_unused ?p ?s ?t
              = Inr (?y, ?s, [ChatCompletion (u ''gpt-4o-mini'') (user_message ?t)])"
    using h3 h4 h5 by (simp add: generate_parsed c)
  have a1: "\<exists>r. clean_minutes repr_unused (JObj ?d) = Inr (JObj (record_dict r))
             \<and> py_keys (JObj (record_dict r)) = Some canonical_keys"
    by (rule mp [OF clean_minutes_canonical_keys
          [where d = ?d and rp = repr_unused, THEN conjunct1] h1])
  have a2: "\<exists>m. clean_minutes repr_unused (JObj ?b) = Inl (TypeError m)"
    by (rule mp [OF clean_minutes_canonical_keys
          [where d = ?b and rp = repr_unused, THEN conjunct2, THEN conjunct1] h2])
  have "\<exists>r. generate_meeting_minutes repr_unused ?p ?s ?t
               = Inr (JObj (record_dict r), ?s,
                      [ChatCompletion (model ?s) (user_message ?t)])
               \<and> py_keys (JObj (record_dict r)) = Some canonical_keys"
    by (rule mp [OF clean_minutes_canonical_keys
          [where d = ?d and rp = repr_unused and prov = ?p and self = ?s and c = "()"
             and t = ?t and resp = "[Some (u ''body'')]",
           THEN conjunct2, THEN conjunct2, THEN conjunct1]
          conjI [OF h3 conjI [OF h4 conjI [OF h5 h1]]]])
  then have a3: "\<exists>r. generate_meeting_minutes repr_unused ?p ?s ?t
               = Inr (JObj (record_dict r), ?s,
                      [ChatCompletion (u ''gpt-4o-mini'') (user_message ?t)])
               \<and> py_keys (JObj (record_dict r)) = Some canonical_keys"
    by simp
  have "\<exists>m. clean_minutes repr_unused (JObj ?b) = Inl (TypeError m)
               \<and> generate_meeting_minutes repr_unused ?q ?s ?t
               = Inr (create_fallback_minutes, ?s\<lparr>last_error := Some m\<rparr>,
                      [ChatCompletion (model ?s) (user_message ?t)])"
    by (rule mp [OF clean_minutes_canonical_keys
          [where d = ?b and rp = repr_unused and prov = ?q and self = ?s and c = "()"
             and t = ?t and resp = "[Some (u ''body'')]",
           THEN conjunct2, THEN conjunct2, THEN conjunct2, THEN conjunct1]
          conjI [OF h3 conjI [OF h6 conjI [OF h7 h2]]]])
  then have a4: "\<exists>m. clean_minutes repr_unused (JObj ?b) = Inl (TypeError m)
               \<and> generate_meeting_minutes repr_unused ?q ?s ?t
               = Inr (create_fallback_minutes,
                      \<lparr>client = Some (), model = u ''gpt-4o-mini'', last_error = Some m\<rparr>,
                      [ChatCompletion (u ''gpt-4o-mini'') (user_message ?t)])"
    by simp
  have a5: "?y = create_fallback_minutes
          \<or> (\<exists>r. ?y = JObj (record_dict r) \<and> py_keys ?y = Some canonical_keys)"
    by (rule mp [OF clean_minutes_canonical_keys
          [where rp = repr_unused and prov = ?p and self = ?s and t = ?t and y = ?y
             and self' = ?s
             and calls = "[ChatCompletion (u ''gpt-4o-mini'') (user_message ?t)]",
           THEN conjunct2, THEN conjunct2, THEN conjunct2, THEN conjunct2, THEN conjunct1]
          h8])
  have a6: "py_keys create_fallback_minutes \<noteq> Some canonical_keys"
    by (rule clean_minutes_canonical_keys
          [THEN conjunct2, THEN conjunct2, THEN conjunct2, THEN conjunct2, THEN conjunct2])
  show ?thesis using h1 a1 h2 a2 h3 h4 h5 a3 h6 h7 a4 h8 a5 a6 by (intro conjI)
qed

section \<open>Word documents: the claims\<close>

lemma append_texts_eq:
  "append_texts parts xs = parts @ filter (\<lambda>s. s \<noteq> []) (map strip xs)"
  by (induction xs arbitrary: parts) auto

lemma append_rows_eq:
  "append_rows parts rows = parts @ filter (\<lambda>s. s \<noteq> []) (map strip (concat rows))"
  by (induction rows arbitrary: parts) (auto simp: append_texts_eq)

lemma append_tables_eq:
  "append_tables parts ts = parts @ filter (\<lambda>s. s \<noteq> []) (map strip (concat (concat ts)))"
  by (induction ts arbitrary: parts) (auto simp: append_rows_eq)

lemma docx_parts_eq:
  "append_tables (append_texts [] (paragraphs doc)) (tables doc) =
     filter (\<lambda>s. s \<noteq> []) (map strip (docx_fragments doc))"
  by (simp add: append_tables_eq append_texts_eq docx_fragments_def)

text \<open>
  C9, as stated, fails: the fragments the code emits are not the paragraph and cell
  texts themselves but their trimmed forms. For a paragraph " A" and a cell "X " the code
  returns "A\nX", where the non-empty fragments joined by newlines are " A\nX ".
\<close>

theorem extract_docx_trims_fragments:
  "extract_text_from_docx Inr \<lparr>paragraphs = [u '' A''], tables = [[[u ''X '']]]\<rparr>
     = Inr (u ''A'' @ [10] @ u ''X'')
   \<and> spec_docx_text \<lparr>paragraphs = [u '' A''], tables = [[[u ''X '']]]\<rparr>
     = u '' A'' @ [10] @ u ''X ''
   \<and> extract_text_from_docx Inr \<lparr>paragraphs = [u '' A''], tables = [[[u ''X '']]]\<rparr>
     \<noteq> Inr (spec_docx_text \<lparr>paragraphs = [u '' A''], tables = [[[u ''X '']]]\<rparr>)"
  by (simp add: extract_text_from_docx_def try_except_def spec_docx_text_def docx_fragments_def
      strip_def is_space_def u_def)

text \<open>
  C9, amended: Word-document extraction takes the text of every paragraph in document
  order, followed by the text of every table cell in table order and row-major order
  (never interleaved with the paragraphs), trims each, keeps only the fragments that are
  non-empty after trimming, and joins them with single newlines; it returns the empty
  string when the document cannot be opened. In particular a document with one paragraph
  "A" and one table cell "X" yields "A\nX".
\<close>

theorem extract_docx_text:
  "(open_docx file = Inr doc \<longrightarrow>
      extract_text_from_docx open_docx file =
        Inr (join [10] (filter (\<lambda>s. s \<noteq> []) (map strip (docx_fragments doc)))))
   \<and> (open_docx file = Inl e \<longrightarrow> extract_text_from_docx open_docx file = Inr [])
   \<and> extract_text_from_docx Inr \<lparr>paragraphs = [u ''A''], tables = [[[u ''X'']]]\<rparr>
       = Inr (u ''A'' @ [10] @ u ''X'')"
  by (simp add: extract_text_from_docx_def try_except_def docx_parts_eq)
     (simp add: docx_fragments_def strip_def is_space_def u_def)

text \<open>
  The amended C9 at a document with padded and blank paragraphs and two tables, and at
  a file that cannot be opened.
\<close>

theorem extract_docx_text_witness:
  "Inr \<lparr>paragraphs = [u '' A '', u ''  '', u ''B''],
        tables = [[[u ''X'', []], [u ''Y '']], [[u ''Z'']]]\<rparr>
     = (Inr \<lparr>paragraphs = [u '' A '', u ''  '', u ''B''],
             tables = [[[u ''X'', []], [u ''Y '']], [[u ''Z'']]]\<rparr> :: py_exn + docx_document)
   \<and> extract_text_from_docx Inr
        \<lparr>paragraphs = [u '' A '', u ''  '', u ''B''],
         tables = [[[u ''X'', []], [u ''Y '']], [[u ''Z'']]]\<rparr>
       = Inr (u ''A'' @ [10] @ u ''B'' @ [10] @ u ''X'' @ [10] @ u ''Y'' @ [10] @ u ''Z'')
   \<and> (Inl (ExternalError (u ''File is not a zip file'')) :: py_exn + docx_document)
       = Inl (ExternalError (u ''File is not a zip file''))
   \<and> extract_text_from_docx (Inl :: py_exn \<Rightarrow> py_exn + docx_document)
        (ExternalError (u ''File is not a zip file'')) = Inr []"
proof -
  let ?doc = "\<lparr>paragraphs = [u '' A '', u ''  '', u ''B''],
               tables = [[[u ''X'', []], [u ''Y '']], [[u ''Z'']]]\<rparr>"
  have a: "extract_text_from_docx Inr ?doc =
        Inr (join [10] (filter (\<lambda>s. s \<noteq> []) (map strip (docx_fragments ?doc))))"
    using extract_docx_text [of Inr ?doc ?doc] by simp
  have b: "extract_text_from_docx (Inl :: py_exn \<Rightarrow> py_exn + docx_document)
        (ExternalError (u ''File is not a zip file'')) = Inr []"
    using extract_docx_text [of Inl "ExternalError (u ''File is not a zip file'')" _
        "ExternalError (u ''File is not a zip file'')"] by simp
  show ?thesis
    unfolding a b by (simp add: docx_fragments_def strip_def is_space_def u_def)
qed

section \<open>Markdown: the claims\<close>

lemma bullet_lines_record:
  "map_of d k = Some (JList (map JStr xs)) \<Longrightarrow>
   bullet_lines rp (JObj d) k = Inr (JStr (spec_bullets xs))"
  by (simp add: bullet_lines_def dict_get_def spec_bullets_def comp_def)

lemma render_sections_strs:
  "render_sections rp (map (\<lambda>hc. (fst hc, JStr (snd hc))) xs) =
     join [10, 10] (map (\<lambda>hc. fst hc @ [10] @ snd hc) (filter (\<lambda>hc. snd hc \<noteq> []) xs))"
proof -
  have "[header @ [10] @ py_str rp content.
          (header, content) \<leftarrow> map (\<lambda>hc. (fst hc, JStr (snd hc))) xs, py_truthy content]
        = map (\<lambda>hc. fst hc @ [10] @ snd hc) (filter (\<lambda>hc. snd hc \<noteq> []) xs)"
    by (induction xs) auto
  then show ?thesis by (simp add: render_sections_def)
qed

lemma format_record:
  assumes "map_of d = map_of (record_dict r)"
  shows "format_minutes_as_markdown rp (JObj d) = Inr (spec_markdown r)"
proof -
  have s: "dict_get d (u ''summary'') (JStr []) = JStr (summary r)"
    by (simp add: dict_get_def assms record_dict_def)
  have p: "map_of d (u ''participants'') = Some (JList (map JStr (participants r)))"
    by (simp add: assms record_dict_def u_def)
  have t: "map_of d (u ''discussion_points'') = Some (JList (map JStr (discussion_points r)))"
    by (simp add: assms record_dict_def u_def)
  have o: "map_of d (u ''outcomes_or_decisions'') = Some (JList (map JStr (outcomes_or_decisions r)))"
    by (simp add: assms record_dict_def u_def)
  have n: "map_of d (u ''next_steps'') = Some (JList (map JStr (next_steps r)))"
    by (simp add: assms record_dict_def u_def)
  have "format_minutes_as_markdown rp (JObj d) =
          Inr (render_sections rp (map (\<lambda>hc. (fst hc, JStr (snd hc))) (spec_sections r)))"
    by (simp add: format_minutes_as_markdown_def s bullet_lines_record[OF p]
        bullet_lines_record[OF t] bullet_lines_record[OF o] bullet_lines_record[OF n]
        spec_sections_def)
  then show ?thesis by (simp add: render_sections_strs spec_markdown_def)
qed

lemma record_dict_distinct: "distinct (map fst (record_dict r))"
  by (simp add: record_dict_def u_def)

lemma same_entries_same_lookup:
  "distinct (map fst d) \<Longrightarrow> set d = set (record_dict r) \<Longrightarrow> map_of d = map_of (record_dict r)"
  using map_of_inject_set record_dict_distinct by blast

lemma spec_markdown_empty:
  "summary r = [] \<Longrightarrow> participants r = [] \<Longrightarrow> discussion_points r = [] \<Longrightarrow>
   outcomes_or_decisions r = [] \<Longrightarrow> next_steps r = [] \<Longrightarrow> spec_markdown r = []"
  by (simp add: spec_markdown_def spec_sections_def spec_bullets_def)

text \<open>
  C4: for every MinutesRecord, held in a dict with its five fields in any order,
  \<open>format_minutes_as_markdown\<close> returns the document of the specification: the blocks
  Summary, Participants, Discussion Points, Outcomes or Decisions, Next Steps in this
  order, a block (header and body) left out when its formatted content is empty, the
  remaining blocks joined by one blank line.
\<close>

theorem markdown_fixed_order:
  assumes "distinct (map fst d)" and "set d = set (record_dict r)"
  shows "format_minutes_as_markdown rp (JObj d) = Inr (spec_markdown r)"
  using assms by (simp add: format_record same_entries_same_lookup)

text \<open>
  C4 at the record of the end-to-end scenario, its fields given in another order: three
  blocks, Summary first.
\<close>

theorem markdown_fixed_order_witness:
  "distinct (map fst [(u ''next_steps'', JList []),
                      (u ''outcomes_or_decisions'', JList [JStr (u ''Ship v2 Friday'')]),
                      (u ''summary'', JStr (u ''Team agreed to ship v2 Friday.'')),
                      (u ''discussion_points'', JList []),
                      (u ''participants'', JList [JStr (u ''Alice'')])])
   \<and> set [(u ''next_steps'', JList []),
           (u ''outcomes_or_decisions'', JList [JStr (u ''Ship v2 Friday'')]),
           (u ''summary'', JStr (u ''Team agreed to ship v2 Friday.'')),
           (u ''discussion_points'', JList []),
           (u ''participants'', JList [JStr (u ''Alice'')])]
     = set (record_dict \<lparr>summary = u ''Team agreed to ship v2 Friday.'',
                         participants = [u ''Alice''],
                         discussion_points = [],
                         outcomes_or_decisions = [u ''Ship v2 Friday''],
                         next_steps = []\<rparr>)
   \<and> format_minutes_as_markdown repr_unused
        (JObj [(u ''next_steps'', JList []),
               (u ''outcomes_or_decisions'', JList [JStr (u ''Ship v2 Friday'')]),
               (u ''summary'', JStr (u ''Team agreed to ship v2 Friday.'')),
               (u ''discussion_points'', JList []),
               (u ''participants'', JList [JStr (u ''Alice'')])])
     = Inr (hdr_summary @ [10] @ u ''Team agreed to ship v2 Friday.'' @ [10, 10]
            @ hdr_participants @ [10] @ u ''- Alice'' @ [10, 10]
            @ hdr_outcomes_or_decisions @ [10] @ u ''- Ship v2 Friday'')"
proof -
  let ?d = "[(u ''next_steps'', JList []),
             (u ''outcomes_or_decisions'', JList [JStr (u ''Ship v2 Friday'')]),
             (u ''summary'', JStr (u ''Team agreed to ship v2 Friday.'')),
             (u ''discussion_points'', JList []),
             (u ''participants'', JList [JStr (u ''Alice'')])]"
  let ?r = "\<lparr>summary = u ''Team agreed to ship v2 Friday.'',
             participants = [u ''Alice''],
             discussion_points = [],
             outcomes_or_decisions = [u ''Ship v2 Friday''],
             next_steps = []\<rparr>"
  have h1: "distinct (map fst ?d)" by (simp add: u_def)
  have h2: "set ?d = set (record_dict ?r)" by (auto simp: record_dict_def)
  have v: "spec_markdown ?r =
             hdr_summary @ [10] @ u ''Team agreed to ship v2 Friday.'' @ [10, 10]
             @ hdr_participants @ [10] @ u ''- Alice'' @ [10, 10]
             @ hdr_outcomes_or_decisions @ [10] @ u ''- Ship v2 Friday''"
    by (simp add: spec_markdown_def spec_sections_def spec_bullets_def u_def)
  show ?thesis
    using h1 h2 markdown_fixed_order [OF h1 h2, of repr_unused] by (simp only: v simp_thms)
qed

text \<open>
  C5: for every MinutesRecord whose summary is the empty string and whose four list
  fields are empty lists, \<open>format_minutes_as_markdown\<close> returns the empty string.
\<close>

theorem markdown_empty_record:
  assumes "distinct (map fst d)" and "set d = set (record_dict r)"
    and "summary r = []" and "participants r = []" and "discussion_points r = []"
    and "outcomes_or_decisions r = []" and "next_steps r = []"
  shows "format_minutes_as_markdown rp (JObj d) = Inr []"
  using assms by (simp add: format_record same_entries_same_lookup spec_markdown_empty)

text \<open>C5 at the empty record, its fields given in another order.\<close>

theorem markdown_empty_record_witness:
  "distinct (map fst [(u ''participants'', JList []), (u ''next_steps'', JList []),
                      (u ''summary'', JStr []), (u ''outcomes_or_decisions'', JList []),
                      (u ''discussion_points'', JList [])])
   \<and> set [(u ''participants'', JList []), (u ''next_steps'', JList []),
           (u ''summary'', JStr []), (u ''outcomes_or_decisions'', JList []),
           (u ''discussion_points'', JList [])]
     = set (record_dict \<lparr>summary = [], participants = [], discussion_points = [],
                         outcomes_or_decisions = [], next_steps = []\<rparr>)
   \<and> format_minutes_as_markdown repr_unused
        (JObj [(u ''participants'', JList []), (u ''next_steps'', JList []),
               (u ''summary'', JStr []), (u ''outcomes_or_decisions'', JList []),
               (u ''discussion_points'', JList [])]) = Inr []"
proof -
  let ?d = "[(u ''participants'', JList []), (u ''next_steps'', JList []),
             (u ''summary'', JStr []), (u ''outcomes_or_decisions'', JList []),
             (u ''discussion_points'', JList [])]"
  let ?r = "\<lparr>summary = [], participants = [], discussion_points = [],
             outcomes_or_decisions = [], next_steps = []\<rparr>"
  have h1: "distinct (map fst ?d)" by (simp add: u_def)
  have h2: "set ?d = set (record_dict ?r)" by (auto simp: record_dict_def)
  show ?thesis
    using h1 h2 markdown_empty_record [OF h1 h2, of repr_unused] by simp
qed

end
